theory Spec2Isabelle
  imports Complex_Main "HOL-Library.AList"
begin

section \<open>Numbers\<close>

text \<open>
  The engine computes on JavaScript numbers.  They are modelled as exact rationals: every
  arithmetic operation below is the mathematical one, and the only rounding is the explicit
  rounding to two decimals that the source performs through \<open>CurrencyUtils.round\<close>.
  \<open>Math.round\<close> rounds to the nearest integer with ties towards plus infinity, that is
  \<open>\<lfloor>x + 1/2\<rfloor>\<close>; \<open>Math.floor\<close> is \<open>\<lfloor>x\<rfloor>\<close>.
\<close>

definition Math_round :: "rat \<Rightarrow> int" where
  "Math_round x = \<lfloor>x + 1 / 2\<rfloor>"

definition Math_floor :: "rat \<Rightarrow> int" where
  "Math_floor x = \<lfloor>x\<rfloor>"

text \<open>\<open>xs.reduce((acc, val) => acc + val, 0)\<close>\<close>

definition reduce_sum :: "rat list \<Rightarrow> rat" where
  "reduce_sum xs = foldl (\<lambda>acc val. acc + val) 0 xs"

text \<open>A thrown \<open>Error\<close>, one constructor for each message of the source.\<close>

datatype error =
    DivisionByZero
  | SharesMustBePositive
  | TotalMustBeNonNegative
  | PercentagesMustSumTo100
  | TotalSharesMustBePositive
  | CustomAmountsMustSum

section \<open>CurrencyUtils (src/lib/utils/currency.ts)\<close>

definition PRECISION :: nat where
  "PRECISION = 2"

definition MULTIPLIER :: rat where
  "MULTIPLIER = 10 ^ PRECISION"

definition CU_round :: "rat \<Rightarrow> rat" where
  "CU_round amount = of_int (Math_round (amount * MULTIPLIER)) / MULTIPLIER"

definition CU_add :: "rat list \<Rightarrow> rat" where
  "CU_add amounts = CU_round (reduce_sum amounts)"

definition CU_subtract :: "rat \<Rightarrow> rat \<Rightarrow> rat" where
  "CU_subtract a b = CU_round (a - b)"

definition CU_multiply :: "rat \<Rightarrow> rat \<Rightarrow> rat" where
  "CU_multiply a b = CU_round (a * b)"

definition CU_divide :: "rat \<Rightarrow> rat \<Rightarrow> error + rat" where
  "CU_divide a b = (if b = 0 then Inl DivisionByZero else Inr (CU_round (a / b)))"

definition isEqual :: "rat \<Rightarrow> rat \<Rightarrow> bool" where
  "isEqual a b = (\<bar>a - b\<bar> < 1 / 100)"

definition isZero :: "rat \<Rightarrow> bool" where
  "isZero amount = (\<bar>amount\<bar> < 1 / 100)"

text \<open>
  The loop of \<open>distribute\<close>:
  \<open>for (let i = 0; i < remainderCents && i < shares; i++)
       distribution[i] = this.round(distribution[i] + 0.01)\<close>.
  The index stays below \<open>shares\<close>, the length of the array, so no write is out of range.
\<close>

function distribute_loop :: "int \<Rightarrow> int \<Rightarrow> int \<Rightarrow> rat list \<Rightarrow> rat list" where
  "distribute_loop i remainderCents shares distribution =
     (if i < remainderCents \<and> i < shares
      then distribute_loop (i + 1) remainderCents shares
             (distribution[nat i := CU_round (distribution ! nat i + 1 / 100)])
      else distribution)"
  by pat_completeness auto
termination
  by (relation "measure (\<lambda>(i, remainderCents, shares, distribution). nat (shares - i))") auto

declare distribute_loop.simps [simp del]

text \<open>
  \<open>distribute(total, shares)\<close>; the number of shares is an integer (the engine passes the
  length of the participant list).  The parameter \<open>total\<close> of the source is written
  \<open>totalAmount\<close> throughout, \<open>total\<close> being a constant of HOL.
\<close>

definition distribute :: "rat \<Rightarrow> int \<Rightarrow> error + rat list" where
  "distribute totalAmount shares =
     (if shares \<le> 0 then Inl SharesMustBePositive
      else if totalAmount < 0 then Inl TotalMustBeNonNegative
      else
        let baseAmount = of_int (Math_floor (totalAmount * MULTIPLIER / of_int shares)) / MULTIPLIER;
            remainder = CU_round (totalAmount - baseAmount * of_int shares);
            distribution = replicate (nat shares) baseAmount;
            remainderCents = Math_round (remainder * MULTIPLIER)
        in Inr (distribute_loop 0 remainderCents shares distribution))"

text \<open>
  \<open>Math.max(...amounts)\<close> and \<open>amounts.indexOf(v)\<close>.  On the empty array the source gets
  \<open>-Infinity\<close> and the index \<open>-1\<close>; \<open>Math_max\<close> is only called on a non-empty array
  here (both callers throw before on an empty one), and \<open>indexOf\<close> returns \<open>-1\<close> as the
  source does.
\<close>

fun Math_max :: "rat list \<Rightarrow> rat" where
  "Math_max [] = 0"
| "Math_max (x # xs) = fold max xs x"

fun indexOf :: "rat list \<Rightarrow> rat \<Rightarrow> int" where
  "indexOf [] v = - 1"
| "indexOf (x # xs) v =
     (if x = v then 0 else (let r = indexOf xs v in if r < 0 then - 1 else r + 1))"

text \<open>
  The common tail of \<open>distributeByPercentages\<close> and \<open>distributeByShares\<close>, written twice in
  the source: the residual is added to the largest amount only when its absolute value
  exceeds \<open>0.01\<close>.  A write at index \<open>-1\<close> would not change the array elements.
\<close>

definition adjust_rounding :: "rat \<Rightarrow> rat list \<Rightarrow> rat list" where
  "adjust_rounding totalAmount amounts =
     (let calculatedTotal = reduce_sum amounts;
          difference = CU_round (totalAmount - calculatedTotal)
      in if \<bar>difference\<bar> > 1 / 100
         then (let maxIndex = indexOf amounts (Math_max amounts)
               in if maxIndex < 0 then amounts
                  else amounts[nat maxIndex := CU_add [amounts ! nat maxIndex, difference]])
         else amounts)"

definition distributeByPercentages :: "rat \<Rightarrow> rat list \<Rightarrow> error + rat list" where
  "distributeByPercentages totalAmount percentages =
     (let sum = reduce_sum percentages
      in if \<bar>sum - 100\<bar> > 1 / 100 then Inl PercentagesMustSumTo100
         else
           let amounts = map (\<lambda>pct. CU_multiply totalAmount (pct / 100)) percentages
           in Inr (adjust_rounding totalAmount amounts))"

definition distributeByShares :: "rat \<Rightarrow> rat list \<Rightarrow> error + rat list" where
  "distributeByShares totalAmount shares =
     (let totalShares = reduce_sum shares
      in if totalShares = 0 then Inl TotalSharesMustBePositive
         else
           let amounts = map (\<lambda>share. CU_multiply totalAmount (share / totalShares)) shares
           in Inr (adjust_rounding totalAmount amounts))"


section \<open>BalanceCalculator (balance-calculator.ts, src/unnamed/part_007)\<close>

text \<open>
  The interfaces of the source as records.  Several interfaces share field names
  (\<open>userId\<close>, \<open>name\<close>, \<open>amount\<close>); the fields of all but \<open>UserBalance\<close> carry a prefix.
  The fields \<open>date\<close> and \<open>category\<close> of an expense are never read by the engine and are
  left out.  The optional \<open>amount\<close> of a share is an option.
\<close>

datatype SplitType = EQUAL | PERCENTAGE | CUSTOM | SHARES

record ParticipantShare =
  p_userId :: string
  p_name :: string
  p_value :: rat
  p_amount :: "rat option"

record EnhancedExpense =
  e_id :: string
  e_tripId :: string
  e_description :: string
  e_amount :: rat
  e_currency :: string
  paidBy :: string
  paidByName :: string
  splitType :: SplitType
  participants :: "ParticipantShare list"

record UserBalance =
  userId :: string
  name :: string
  balance :: rat
  totalPaid :: rat
  totalOwed :: rat
  totalShare :: rat

record DebtRelationship =
  creditor :: string
  creditorName :: string
  debtor :: string
  debtorName :: string
  d_amount :: rat

record Settlement =
  s_from :: string
  s_fromName :: string
  s_to :: string
  s_toName :: string
  s_amount :: rat

record Summary =
  totalTransactions :: nat
  totalSettlementAmount :: rat
  averagePerPerson :: rat
  isBalanced :: bool

record BalanceCalculationResult =
  r_userBalances :: "UserBalance list"
  r_debtRelationships :: "DebtRelationship list"
  r_settlements :: "Settlement list"
  r_totalExpenses :: rat
  r_summary :: Summary

text \<open>
  The private state of the class.  A JavaScript \<open>Map\<close> keeps its keys in insertion order,
  and \<open>set\<close> on a present key replaces the value in place: an association list with
  \<open>map_of\<close> for \<open>get\<close> and \<open>AList.update\<close> for \<open>set\<close>; \<open>forEach\<close> is a \<open>fold\<close> from
  the left.
\<close>

record BalanceCalculator =
  expenses :: "EnhancedExpense list"
  userBalances :: "(string \<times> UserBalance) list"
  debtGraph :: "(string \<times> (string \<times> rat) list) list"
  userNames :: "(string \<times> string) list"

text \<open>\<open>this.userNames.get(id) || 'Unknown'\<close>: a missing and an empty name are both falsy.\<close>

definition nameOrUnknown :: "(string \<times> string) list \<Rightarrow> string \<Rightarrow> string" where
  "nameOrUnknown names uid =
     (case map_of names uid of None \<Rightarrow> ''Unknown'' | Some n \<Rightarrow> if n = [] then ''Unknown'' else n)"

definition initializeUserNames :: "BalanceCalculator \<Rightarrow> BalanceCalculator" where
  "initializeUserNames this =
     fold (\<lambda>expense this1.
            fold (\<lambda>participant this2.
                    this2\<lparr>userNames := AList.update (p_userId participant) (p_name participant)
                                          (userNames this2)\<rparr>)
                 (participants expense)
                 (this1\<lparr>userNames := AList.update (paidBy expense) (paidByName expense)
                                        (userNames this1)\<rparr>))
          (expenses this) this"

text \<open>
  \<open>shares.map((share, index) => ({...share, amount: amounts[index]}))\<close>; the arrays have the
  same length at each of the three call sites.
\<close>

definition withAmounts :: "ParticipantShare list \<Rightarrow> rat list \<Rightarrow> ParticipantShare list" where
  "withAmounts shares amounts =
     map (\<lambda>index. (shares ! index)\<lparr>p_amount := Some (amounts ! index)\<rparr>) [0..<length shares]"

definition calculateEqualShares ::
  "EnhancedExpense \<Rightarrow> ParticipantShare list \<Rightarrow> error + ParticipantShare list" where
  "calculateEqualShares expense shares =
     (case distribute (e_amount expense) (int (length shares)) of
        Inl err \<Rightarrow> Inl err
      | Inr amounts \<Rightarrow> Inr (withAmounts shares amounts))"

definition calculatePercentageShares ::
  "EnhancedExpense \<Rightarrow> ParticipantShare list \<Rightarrow> error + ParticipantShare list" where
  "calculatePercentageShares expense shares =
     (let percentages = map p_value shares
      in case distributeByPercentages (e_amount expense) percentages of
           Inl err \<Rightarrow> Inl err
         | Inr amounts \<Rightarrow> Inr (withAmounts shares amounts))"

definition calculateCustomShares ::
  "EnhancedExpense \<Rightarrow> ParticipantShare list \<Rightarrow> error + ParticipantShare list" where
  "calculateCustomShares expense shares =
     (let totalCustomAmount = reduce_sum (map p_value shares)
      in if \<not> isEqual totalCustomAmount (e_amount expense) then Inl CustomAmountsMustSum
         else Inr (map (\<lambda>share. share\<lparr>p_amount := Some (CU_round (p_value share))\<rparr>) shares))"

definition calculateWeightedShares ::
  "EnhancedExpense \<Rightarrow> ParticipantShare list \<Rightarrow> error + ParticipantShare list" where
  "calculateWeightedShares expense shares =
     (let weights = map p_value shares
      in case distributeByShares (e_amount expense) weights of
           Inl err \<Rightarrow> Inl err
         | Inr amounts \<Rightarrow> Inr (withAmounts shares amounts))"

text \<open>The \<open>default\<close> branch of the \<open>switch\<close> is excluded by the type \<open>SplitType\<close>.\<close>

definition calculateShares :: "EnhancedExpense \<Rightarrow> error + ParticipantShare list" where
  "calculateShares expense =
     (let shares = participants expense
      in case splitType expense of
           EQUAL \<Rightarrow> calculateEqualShares expense shares
         | PERCENTAGE \<Rightarrow> calculatePercentageShares expense shares
         | CUSTOM \<Rightarrow> calculateCustomShares expense shares
         | SHARES \<Rightarrow> calculateWeightedShares expense shares)"

text \<open>
  \<open>updateUserBalance(userId, {paid?, owed?})\<close>.  The tests \<open>if (amounts.paid)\<close> and
  \<open>if (amounts.owed)\<close> are false for an absent field and for the number zero.
\<close>

definition updateUserBalance ::
  "BalanceCalculator \<Rightarrow> string \<Rightarrow> rat option \<Rightarrow> rat option \<Rightarrow> BalanceCalculator" where
  "updateUserBalance this uid paid owed =
     (let existing =
            (case map_of (userBalances this) uid of
               Some b \<Rightarrow> b
             | None \<Rightarrow> \<lparr>userId = uid, name = nameOrUnknown (userNames this) uid, balance = 0,
                         totalPaid = 0, totalOwed = 0, totalShare = 0\<rparr>);
          existing1 =
            (case paid of
               Some p \<Rightarrow> if p \<noteq> 0 then existing\<lparr>totalPaid := CU_add [totalPaid existing, p]\<rparr>
                         else existing
             | None \<Rightarrow> existing);
          existing2 =
            (case owed of
               Some ow \<Rightarrow> if ow \<noteq> 0 then existing1\<lparr>totalShare := CU_add [totalShare existing1, ow]\<rparr>
                          else existing1
             | None \<Rightarrow> existing1);
          existing3 = existing2\<lparr>balance := CU_subtract (totalPaid existing2) (totalShare existing2)\<rparr>;
          existing4 =
            (if balance existing3 < 0 then existing3\<lparr>totalOwed := \<bar>balance existing3\<bar>\<rparr>
             else existing3\<lparr>totalOwed := 0\<rparr>)
      in this\<lparr>userBalances := AList.update uid existing4 (userBalances this)\<rparr>)"

text \<open>
  \<open>updateDebtGraph(debtor, creditor, amount)\<close>.  The inner map is mutated in place in the
  source; here it is stored back under the same key, which keeps its position.
\<close>

definition updateDebtGraph ::
  "BalanceCalculator \<Rightarrow> string \<Rightarrow> string \<Rightarrow> rat \<Rightarrow> BalanceCalculator" where
  "updateDebtGraph this debtorId creditorId amount =
     (let graph1 =
            (if map_of (debtGraph this) debtorId = None
             then AList.update debtorId [] (debtGraph this) else debtGraph this);
          debtorMap = (case map_of graph1 debtorId of Some m \<Rightarrow> m | None \<Rightarrow> []);
          existingDebt = (case map_of debtorMap creditorId of Some v \<Rightarrow> v | None \<Rightarrow> 0)
      in this\<lparr>debtGraph :=
                AList.update debtorId
                  (AList.update creditorId (CU_add [existingDebt, amount]) debtorMap) graph1\<rparr>)"

text \<open>
  \<open>processExpense\<close>.  An exception of \<open>calculateShares\<close> leaves the method before any
  update.  \<open>share.amount!\<close> is always present, every branch of \<open>calculateShares\<close> sets it;
  the case \<open>None\<close> keeps the state.
\<close>

definition processExpense :: "BalanceCalculator \<Rightarrow> EnhancedExpense \<Rightarrow> error + BalanceCalculator" where
  "processExpense this expense =
     (let paidAmount = e_amount expense;
          payer = paidBy expense
      in case calculateShares expense of
           Inl err \<Rightarrow> Inl err
         | Inr shares \<Rightarrow>
             Inr (fold (\<lambda>share this1.
                          case p_amount share of
                            None \<Rightarrow> this1
                          | Some owedAmount \<Rightarrow>
                              (let uid = p_userId share;
                                   this2 = updateUserBalance this1 uid None (Some owedAmount)
                               in if uid \<noteq> payer
                                  then updateDebtGraph this2 uid payer owedAmount
                                  else this2))
                       shares
                       (updateUserBalance this payer (Some paidAmount) None)))"

definition ensureAllUsersHaveBalances :: "BalanceCalculator \<Rightarrow> BalanceCalculator" where
  "ensureAllUsersHaveBalances this =
     fold (\<lambda>(uid, userName) this1.
             if map_of (userBalances this1) uid = None
             then this1\<lparr>userBalances :=
                          AList.update uid
                            \<lparr>userId = uid, name = userName, balance = 0, totalPaid = 0,
                             totalOwed = 0, totalShare = 0\<rparr>
                            (userBalances this1)\<rparr>
             else this1)
          (userNames this) this"

text \<open>The \<open>for\<close> loop of \<open>calculateBalances\<close>: the first exception ends the calculation.\<close>

fun processExpenses :: "BalanceCalculator \<Rightarrow> EnhancedExpense list \<Rightarrow> error + BalanceCalculator" where
  "processExpenses this [] = Inr this"
| "processExpenses this (expense # rest) =
     (case processExpense this expense of
        Inl err \<Rightarrow> Inl err
      | Inr this1 \<Rightarrow> processExpenses this1 rest)"

definition calculateBalances :: "BalanceCalculator \<Rightarrow> error + BalanceCalculator" where
  "calculateBalances this =
     (case processExpenses (this\<lparr>userBalances := [], debtGraph := []\<rparr>) (expenses this) of
        Inl err \<Rightarrow> Inl err
      | Inr this1 \<Rightarrow> Inr (ensureAllUsersHaveBalances this1))"

text \<open>The constructor \<open>new BalanceCalculator(expenses)\<close>; it throws what the calculation throws.\<close>

definition newBalanceCalculator :: "EnhancedExpense list \<Rightarrow> error + BalanceCalculator" where
  "newBalanceCalculator exps =
     calculateBalances
       (initializeUserNames \<lparr>expenses = exps, userBalances = [], debtGraph = [], userNames = []\<rparr>)"

text \<open>\<open>Array.prototype.sort\<close> is stable, and so is \<open>sort_key\<close>.\<close>

definition getUserBalances :: "BalanceCalculator \<Rightarrow> UserBalance list" where
  "getUserBalances this = sort_key (\<lambda>b. - balance b) (map snd (userBalances this))"

definition getDebtRelationships :: "BalanceCalculator \<Rightarrow> DebtRelationship list" where
  "getDebtRelationships this =
     sort_key (\<lambda>r. - d_amount r)
       (fold (\<lambda>(debtorId, creditors) relationships.
                fold (\<lambda>(creditorId, amount) relationships1.
                        if amount > 1 / 100
                        then relationships1 @
                               [\<lparr>creditor = creditorId,
                                 creditorName = nameOrUnknown (userNames this) creditorId,
                                 debtor = debtorId,
                                 debtorName = nameOrUnknown (userNames this) debtorId,
                                 d_amount = CU_round amount\<rparr>]
                        else relationships1)
                     creditors relationships)
             (debtGraph this) [])"

definition computeNetBalances ::
  "BalanceCalculator \<Rightarrow> (string \<times> (string \<times> rat) list) list \<Rightarrow> (string \<times> rat) list" where
  "computeNetBalances this graph =
     fold (\<lambda>(debtorId, creditors) netBalances.
             fold (\<lambda>(creditorId, amount) netBalances1.
                     (let currentDebtorBalance =
                            (case map_of netBalances1 debtorId of Some v \<Rightarrow> v | None \<Rightarrow> 0);
                          currentCreditorBalance =
                            (case map_of netBalances1 creditorId of Some v \<Rightarrow> v | None \<Rightarrow> 0)
                      in AList.update creditorId (CU_add [currentCreditorBalance, amount])
                           (AList.update debtorId (CU_subtract currentDebtorBalance amount)
                              netBalances1)))
                  creditors netBalances)
          graph
          (fold (\<lambda>(uid, userName) netBalances. AList.update uid 0 netBalances) (userNames this) [])"

text \<open>The state of the greedy loop of \<open>optimizeSettlements\<close>.\<close>

record SettleState =
  creditors :: "(string \<times> rat) list"
  debtors :: "(string \<times> rat) list"
  creditorIndex :: nat
  debtorIndex :: nat
  settlements :: "Settlement list"

definition settle_cond :: "SettleState \<Rightarrow> bool" where
  "settle_cond st =
     (creditorIndex st < length (creditors st) \<and> debtorIndex st < length (debtors st))"

text \<open>One pass through the body of the \<open>while\<close> loop.\<close>

definition settle_step :: "(string \<times> string) list \<Rightarrow> SettleState \<Rightarrow> SettleState" where
  "settle_step names st =
     (let (creditorId, creditAmount) = creditors st ! creditorIndex st;
          (debtorId, debtAmount) = debtors st ! debtorIndex st;
          settleAmount = min creditAmount debtAmount;
          settlements1 =
            (if settleAmount > 1 / 100
             then settlements st @
                    [\<lparr>s_from = debtorId, s_fromName = nameOrUnknown names debtorId,
                      s_to = creditorId, s_toName = nameOrUnknown names creditorId,
                      s_amount = CU_round settleAmount\<rparr>]
             else settlements st);
          creditors1 = (creditors st)[creditorIndex st :=
                          (creditorId, CU_subtract creditAmount settleAmount)];
          debtors1 = (debtors st)[debtorIndex st :=
                          (debtorId, CU_subtract debtAmount settleAmount)];
          creditorIndex1 =
            (if isZero (snd (creditors1 ! creditorIndex st)) then creditorIndex st + 1
             else creditorIndex st);
          debtorIndex1 =
            (if isZero (snd (debtors1 ! debtorIndex st)) then debtorIndex st + 1
             else debtorIndex st)
      in \<lparr>creditors = creditors1, debtors = debtors1, creditorIndex = creditorIndex1,
          debtorIndex = debtorIndex1, settlements = settlements1\<rparr>)"

text \<open>
  The \<open>while\<close> loop.  Each pass settles the smaller of the two current amounts, so one of
  the two remainders is zero and its index advances: the loop ends.
\<close>

function settle_loop :: "(string \<times> string) list \<Rightarrow> SettleState \<Rightarrow> SettleState" where
  "settle_loop names st = (if settle_cond st then settle_loop names (settle_step names st) else st)"
  by pat_completeness auto
termination
proof (relation "measure (\<lambda>(names, st). (length (creditors st) - creditorIndex st)
                                        + (length (debtors st) - debtorIndex st))")
  show "wf (measure (\<lambda>(names, st). (length (creditors st) - creditorIndex st)
                                        + (length (debtors st) - debtorIndex st)))"
    by simp
next
  fix names :: "(string \<times> string) list" and st :: SettleState
  assume c: "settle_cond st"
  obtain cn ca where cc: "creditors st ! creditorIndex st = (cn, ca)"
    by (cases "creditors st ! creditorIndex st")
  obtain dn da where dd: "debtors st ! debtorIndex st = (dn, da)"
    by (cases "debtors st ! debtorIndex st")
  have z: "CU_subtract x x = 0" for x
    by (simp add: CU_subtract_def CU_round_def Math_round_def floor_eq_iff)
  have "isZero (CU_subtract ca (min ca da)) \<or> isZero (CU_subtract da (min ca da))"
    by (cases "ca \<le> da") (simp_all add: min_def z isZero_def)
  with c cc dd
  show "((names, settle_step names st), (names, st))
          \<in> measure (\<lambda>(names, st). (length (creditors st) - creditorIndex st)
                                        + (length (debtors st) - debtorIndex st))"
    by (auto simp: settle_cond_def settle_step_def Let_def)
qed

declare settle_loop.simps [simp del]

text \<open>
  The partition of the net balances into creditors (balance above \<open>0.01\<close>) and debtors
  (balance below \<open>-0.01\<close>, kept with its absolute value), in the order of the map.
\<close>

definition partitionBalances ::
  "(string \<times> rat) list \<Rightarrow> (string \<times> rat) list \<times> (string \<times> rat) list" where
  "partitionBalances netBalances =
     fold (\<lambda>(person, bal) (cs, ds).
             if bal > 1 / 100 then (cs @ [(person, bal)], ds)
             else if bal < - (1 / 100) then (cs, ds @ [(person, \<bar>bal\<bar>)])
             else (cs, ds))
          netBalances ([], [])"

definition optimizeSettlements ::
  "BalanceCalculator \<Rightarrow> (string \<times> (string \<times> rat) list) list \<Rightarrow> Settlement list" where
  "optimizeSettlements this graph =
     (let netBalances = computeNetBalances this graph;
          (creditors0, debtors0) = partitionBalances netBalances;
          final = settle_loop (userNames this)
                    \<lparr>creditors = sort_key (\<lambda>c. - snd c) creditors0,
                     debtors = sort_key (\<lambda>d. - snd d) debtors0,
                     creditorIndex = 0, debtorIndex = 0, settlements = []\<rparr>
      in sort_key (\<lambda>s. - s_amount s) (settlements final))"

definition getOptimizedSettlements :: "BalanceCalculator \<Rightarrow> Settlement list" where
  "getOptimizedSettlements this = optimizeSettlements this (debtGraph this)"

text \<open>
  \<open>getCalculationResult\<close>.  \<open>CurrencyUtils.divide\<close> throws on a zero divisor, and the divisor
  is the number of known users.
\<close>

definition getCalculationResult :: "BalanceCalculator \<Rightarrow> error + BalanceCalculationResult" where
  "getCalculationResult this =
     (let balances = getUserBalances this;
          relationships = getDebtRelationships this;
          plan = getOptimizedSettlements this;
          totalExp = reduce_sum (map e_amount (expenses this))
      in case CU_divide totalExp (of_nat (length (userNames this))) of
           Inl err \<Rightarrow> Inl err
         | Inr average \<Rightarrow>
             Inr \<lparr>r_userBalances = balances,
                  r_debtRelationships = relationships,
                  r_settlements = plan,
                  r_totalExpenses = totalExp,
                  r_summary =
                    \<lparr>totalTransactions = length plan,
                     totalSettlementAmount = reduce_sum (map s_amount plan),
                     averagePerPerson = average,
                     isBalanced = list_all (\<lambda>b. isZero (balance b)) balances\<rparr>\<rparr>)"

text \<open>A calculation from the expense list to the result object, as a caller runs it.\<close>

definition runCalculation :: "EnhancedExpense list \<Rightarrow> error + BalanceCalculationResult" where
  "runCalculation exps =
     (case newBalanceCalculator exps of
        Inl err \<Rightarrow> Inl err
      | Inr this \<Rightarrow> getCalculationResult this)"

text \<open>An expense as the tests of the repository build it (\<open>createTestExpense\<close>).\<close>

definition mkShare :: "string \<Rightarrow> rat \<Rightarrow> ParticipantShare" where
  "mkShare uid v = \<lparr>p_userId = uid, p_name = uid, p_value = v, p_amount = None\<rparr>"

definition mkExpense ::
  "string \<Rightarrow> rat \<Rightarrow> string \<Rightarrow> SplitType \<Rightarrow> (string \<times> rat) list \<Rightarrow> EnhancedExpense" where
  "mkExpense eid amt payer st ps =
     \<lparr>e_id = eid, e_tripId = ''test-trip'', e_description = ''Test expense'', e_amount = amt,
      e_currency = ''USD'', paidBy = payer, paidByName = payer, splitType = st,
      participants = map (\<lambda>(uid, v). mkShare uid v) ps\<rparr>"

section \<open>Notions used in the statements and proofs\<close>

text \<open>The identifiers an expense mentions: its payer and its sharing participants.\<close>

definition expenseUserIds :: "EnhancedExpense \<Rightarrow> string set" where
  "expenseUserIds e = insert (paidBy e) (p_userId ` set (participants e))"

text \<open>
  A balance map whose keys are distinct and whose records carry their own key as \<open>userId\<close>.
\<close>

definition keyed :: "(string \<times> UserBalance) list \<Rightarrow> bool" where
  "keyed al = (distinct (map fst al) \<and> (\<forall>kb \<in> set al. userId (snd kb) = fst kb))"

text \<open>The body of the loop over the shares in \<open>processExpense\<close>.\<close>

definition share_step :: "string \<Rightarrow> ParticipantShare \<Rightarrow> BalanceCalculator \<Rightarrow> BalanceCalculator" where
  "share_step payer share this1 =
     (case p_amount share of
        None \<Rightarrow> this1
      | Some owedAmount \<Rightarrow>
          (let uid = p_userId share;
               this2 = updateUserBalance this1 uid None (Some owedAmount)
           in if uid \<noteq> payer then updateDebtGraph this2 uid payer owedAmount else this2))"



















text \<open>The body of the loop of \<open>ensureAllUsersHaveBalances\<close>.\<close>

definition ensure_step :: "string \<times> string \<Rightarrow> BalanceCalculator \<Rightarrow> BalanceCalculator" where
  "ensure_step = (\<lambda>(uid, userName) this1.
             if map_of (userBalances this1) uid = None
             then this1\<lparr>userBalances :=
                          AList.update uid
                            \<lparr>userId = uid, name = userName, balance = 0, totalPaid = 0,
                             totalOwed = 0, totalShare = 0\<rparr>
                            (userBalances this1)\<rparr>
             else this1)"













section \<open>Properties of CurrencyUtils\<close>





































text \<open>
  C4 (percentage exactness) at the input \<open>distributeByPercentages(0.25, [50, 50])\<close>: the
  percentages sum to \<open>100\<close>, both parts are \<open>0.125\<close> rounded to \<open>0.13\<close>, the residual
  \<open>round(0.25 - 0.26)\<close> is \<open>-0.01\<close>, and since the source corrects the residual only when
  its absolute value exceeds \<open>0.01\<close>, the parts are returned uncorrected: they sum to \<open>0.26\<close>,
  not to the total \<open>0.25\<close>.
\<close>

theorem distributeByPercentages_one_cent_residual:
  "reduce_sum [50, 50] = 100 \<and>
   distributeByPercentages (1 / 4) [50, 50] = Inr [13 / 100, 13 / 100] \<and>
   sum_list [13 / 100, 13 / 100 :: rat] = 26 / 100 \<and>
   CU_round (1 / 4 - 26 / 100) = - (1 / 100) \<and>
   sum_list [13 / 100, 13 / 100 :: rat] \<noteq> 1 / 4"
  by code_simp

text \<open>
  C9 (share-weight validation) at the input \<open>distributeByShares(100, [-1, -1])\<close>: the weights
  sum to \<open>-2\<close>, which is not positive, and the call returns the distribution \<open>[50, 50]\<close>
  instead of raising an error; the source tests the sum of the weights against zero only.
\<close>

theorem distributeByShares_negative_weight_sum:
  "reduce_sum [- 1, - 1] < 0 \<and> distributeByShares 100 [- 1, - 1] = Inr [50, 50]"
  by code_simp

section \<open>Properties of BalanceCalculator\<close>

text \<open>
  C6 (empty expense list) at the input \<open>new BalanceCalculator([]).getCalculationResult()\<close>:
  the constructor succeeds with no users at all, and \<open>getCalculationResult\<close> raises
  ``Division by zero'', because the average per person divides by the number of known
  users, which is zero; no result object is returned.
\<close>

theorem empty_expense_list_raises:
  "newBalanceCalculator [] =
     Inr \<lparr>expenses = [], userBalances = [], debtGraph = [], userNames = []\<rparr> \<and>
   getCalculationResult \<lparr>expenses = [], userBalances = [], debtGraph = [], userNames = []\<rparr>
     = Inl DivisionByZero \<and>
   runCalculation [] = Inl DivisionByZero"
  by code_simp

text \<open>
  C1 (conservation) at an accepted expense list: three expenses of \<open>0.25\<close> each, paid by A
  and split by percentage \<open>50 / 50\<close> between A and B.  Each expense charges \<open>0.13\<close> to both
  participants (the one-cent residual of C4 is left uncorrected), so A ends with the
  balance \<open>0.36\<close> and B with \<open>-0.39\<close>: the balances sum to \<open>-0.03\<close>, beyond the tolerance.
\<close>

theorem conservation_broken_by_one_cent_residual:
  "map_sum id (\<lambda>this. map (\<lambda>b. (userId b, balance b)) (getUserBalances this))
     (newBalanceCalculator
        [mkExpense ''1'' (1 / 4) ''A'' PERCENTAGE [(''A'', 50), (''B'', 50)],
         mkExpense ''2'' (1 / 4) ''A'' PERCENTAGE [(''A'', 50), (''B'', 50)],
         mkExpense ''3'' (1 / 4) ''A'' PERCENTAGE [(''A'', 50), (''B'', 50)]])
     = Inr [(''A'', 36 / 100), (''B'', - (39 / 100))] \<and>
   sum_list [36 / 100, - (39 / 100) :: rat] = - (3 / 100) \<and>
   \<not> \<bar>- (3 / 100) :: rat\<bar> \<le> 1 / 100"
  by code_simp

subsection \<open>Who appears in the output\<close>

lemma set_update_subset: "set (AList.update k v al) \<subseteq> insert (k, v) (set al)"
  by (induction al) auto

lemma keyed_update:
  assumes "keyed al" "userId b = k"
  shows "keyed (AList.update k b al)"
  using assms set_update_subset [of k b al]
  by (auto simp: keyed_def distinct_update)

lemma keyed_map_of: "keyed al \<Longrightarrow> map_of al k = Some b \<Longrightarrow> userId b = k"
  by (auto simp: keyed_def dest: map_of_SomeD)

lemma fold_names_inner:
  "fst ` set (userNames (fold (\<lambda>participant this2.
       this2\<lparr>userNames := AList.update (p_userId participant) (p_name participant) (userNames this2)\<rparr>) ps st))
   = fst ` set (userNames st) \<union> p_userId ` set ps"
  by (induction ps arbitrary: st) (auto simp: dom_update)

lemma fold_names_inner_fields:
  "expenses (fold (\<lambda>participant this2.
       this2\<lparr>userNames := AList.update (p_userId participant) (p_name participant) (userNames this2)\<rparr>) ps st) = expenses st"
  "userBalances (fold (\<lambda>participant this2.
       this2\<lparr>userNames := AList.update (p_userId participant) (p_name participant) (userNames this2)\<rparr>) ps st) = userBalances st"
  "debtGraph (fold (\<lambda>participant this2.
       this2\<lparr>userNames := AList.update (p_userId participant) (p_name participant) (userNames this2)\<rparr>) ps st) = debtGraph st"
  by (induction ps arbitrary: st) auto

lemma fold_names_outer:
  "fst ` set (userNames (fold (\<lambda>expense this1.
            fold (\<lambda>participant this2.
                    this2\<lparr>userNames := AList.update (p_userId participant) (p_name participant)
                                          (userNames this2)\<rparr>)
                 (participants expense)
                 (this1\<lparr>userNames := AList.update (paidBy expense) (paidByName expense)
                                        (userNames this1)\<rparr>)) es st))
   = fst ` set (userNames st) \<union> (\<Union>e \<in> set es. expenseUserIds e)"
  by (induction es arbitrary: st) (auto simp: fold_names_inner dom_update expenseUserIds_def)

lemma fold_names_outer_fields:
  "userBalances (fold (\<lambda>expense this1.
            fold (\<lambda>participant this2.
                    this2\<lparr>userNames := AList.update (p_userId participant) (p_name participant)
                                          (userNames this2)\<rparr>)
                 (participants expense)
                 (this1\<lparr>userNames := AList.update (paidBy expense) (paidByName expense)
                                        (userNames this1)\<rparr>)) es st) = userBalances st"
  "debtGraph (fold (\<lambda>expense this1.
            fold (\<lambda>participant this2.
                    this2\<lparr>userNames := AList.update (p_userId participant) (p_name participant)
                                          (userNames this2)\<rparr>)
                 (participants expense)
                 (this1\<lparr>userNames := AList.update (paidBy expense) (paidByName expense)
                                        (userNames this1)\<rparr>)) es st) = debtGraph st"
  "expenses (fold (\<lambda>expense this1.
            fold (\<lambda>participant this2.
                    this2\<lparr>userNames := AList.update (p_userId participant) (p_name participant)
                                          (userNames this2)\<rparr>)
                 (participants expense)
                 (this1\<lparr>userNames := AList.update (paidBy expense) (paidByName expense)
                                        (userNames this1)\<rparr>)) es st) = expenses st"
  by (induction es arbitrary: st) (auto simp: fold_names_inner_fields)

lemma initializeUserNames_keys:
  "fst ` set (userNames (initializeUserNames st))
     = fst ` set (userNames st) \<union> (\<Union>e \<in> set (expenses st). expenseUserIds e)"
  by (simp add: initializeUserNames_def fold_names_outer)

lemma initializeUserNames_fields:
  "userBalances (initializeUserNames st) = userBalances st"
  "debtGraph (initializeUserNames st) = debtGraph st"
  "expenses (initializeUserNames st) = expenses st"
  by (simp_all add: initializeUserNames_def fold_names_outer_fields)

lemma updateUserBalance_fields:
  "userNames (updateUserBalance this uid p ow) = userNames this"
  "debtGraph (updateUserBalance this uid p ow) = debtGraph this"
  "expenses (updateUserBalance this uid p ow) = expenses this"
  by (simp_all add: updateUserBalance_def Let_def)

lemma updateUserBalance_keys:
  "fst ` set (userBalances (updateUserBalance this uid p ow)) = insert uid (fst ` set (userBalances this))"
  by (simp add: updateUserBalance_def Let_def dom_update)

lemma updateUserBalance_keyed:
  assumes "keyed (userBalances this)"
  shows "keyed (userBalances (updateUserBalance this uid p ow))"
proof -
  have "userId (case map_of (userBalances this) uid of
               Some b \<Rightarrow> b
             | None \<Rightarrow> \<lparr>userId = uid, name = nameOrUnknown (userNames this) uid, balance = 0,
                         totalPaid = 0, totalOwed = 0, totalShare = 0\<rparr>) = uid"
    using keyed_map_of [OF assms] by (auto split: option.splits)
  then show ?thesis
    unfolding updateUserBalance_def Let_def
    by (auto intro!: keyed_update [OF assms] split: option.splits)
qed

lemma updateDebtGraph_fields:
  "userNames (updateDebtGraph this d c a) = userNames this"
  "userBalances (updateDebtGraph this d c a) = userBalances this"
  "expenses (updateDebtGraph this d c a) = expenses this"
  by (simp_all add: updateDebtGraph_def Let_def)

lemma withAmounts_userIds: "map p_userId (withAmounts shares amounts) = map p_userId shares"
  by (auto simp: withAmounts_def intro!: nth_equalityI)

lemma calculateShares_userIds:
  "calculateShares e = Inr shares \<Longrightarrow> map p_userId shares = map p_userId (participants e)"
  by (auto simp: calculateShares_def calculateEqualShares_def calculatePercentageShares_def
      calculateCustomShares_def calculateWeightedShares_def Let_def withAmounts_userIds o_def
      split: SplitType.splits sum.splits if_splits)

lemma processExpense_alt:
  "processExpense this e =
     (case calculateShares e of
        Inl err \<Rightarrow> Inl err
      | Inr shares \<Rightarrow>
          Inr (fold (share_step (paidBy e)) shares
                 (updateUserBalance this (paidBy e) (Some (e_amount e)) None)))"
  unfolding processExpense_def Let_def share_step_def [abs_def] ..

lemma share_step_fields:
  "userNames (share_step payer s this) = userNames this"
  "expenses (share_step payer s this) = expenses this"
  by (simp_all add: share_step_def Let_def updateUserBalance_fields updateDebtGraph_fields
      split: option.splits)

lemma share_step_keys:
  "fst ` set (userBalances (share_step payer s this)) \<subseteq> insert (p_userId s) (fst ` set (userBalances this))"
  by (auto simp: share_step_def Let_def updateUserBalance_keys updateDebtGraph_fields
      split: option.splits)

lemma share_step_keyed:
  "keyed (userBalances this) \<Longrightarrow> keyed (userBalances (share_step payer s this))"
  by (simp add: share_step_def Let_def updateUserBalance_keyed updateDebtGraph_fields
      split: option.splits)

lemma fold_share_step_fields:
  "userNames (fold (share_step payer) shares this) = userNames this"
  "expenses (fold (share_step payer) shares this) = expenses this"
  by (induction shares arbitrary: this) (simp_all add: share_step_fields)

lemma fold_share_step_keys:
  "fst ` set (userBalances (fold (share_step payer) shares this))
      \<subseteq> fst ` set (userBalances this) \<union> p_userId ` set shares"
proof (induction shares arbitrary: this)
  case Nil
  show ?case by simp
next
  case (Cons s shares)
  have "fst ` set (userBalances (fold (share_step payer) shares (share_step payer s this)))
          \<subseteq> fst ` set (userBalances (share_step payer s this)) \<union> p_userId ` set shares"
    by (rule Cons.IH)
  also have "\<dots> \<subseteq> insert (p_userId s) (fst ` set (userBalances this)) \<union> p_userId ` set shares"
    using share_step_keys [of payer s this] by blast
  finally show ?case by auto
qed

lemma fold_share_step_keyed:
  "keyed (userBalances this) \<Longrightarrow> keyed (userBalances (fold (share_step payer) shares this))"
  by (induction shares arbitrary: this) (simp_all add: share_step_keyed)

lemma processExpense_props:
  assumes "processExpense this e = Inr this'"
  shows "userNames this' = userNames this"
    and "expenses this' = expenses this"
    and "fst ` set (userBalances this') \<subseteq> fst ` set (userBalances this) \<union> expenseUserIds e"
    and "keyed (userBalances this) \<Longrightarrow> keyed (userBalances this')"
proof -
  from assms obtain shares where sh: "calculateShares e = Inr shares"
    and t: "this' = fold (share_step (paidBy e)) shares
                 (updateUserBalance this (paidBy e) (Some (e_amount e)) None)"
    by (auto simp: processExpense_alt split: sum.splits)
  have ids: "p_userId ` set shares = p_userId ` set (participants e)"
    using calculateShares_userIds [OF sh] by (metis list.set_map)
  show "userNames this' = userNames this" "expenses this' = expenses this"
    by (simp_all add: t fold_share_step_fields updateUserBalance_fields)
  have "fst ` set (userBalances this')
          \<subseteq> fst ` set (userBalances (updateUserBalance this (paidBy e) (Some (e_amount e)) None))
              \<union> p_userId ` set shares"
    unfolding t by (rule fold_share_step_keys)
  then show "fst ` set (userBalances this') \<subseteq> fst ` set (userBalances this) \<union> expenseUserIds e"
    unfolding updateUserBalance_keys ids expenseUserIds_def by blast
  show "keyed (userBalances this) \<Longrightarrow> keyed (userBalances this')"
    by (simp add: t fold_share_step_keyed updateUserBalance_keyed)
qed

lemma processExpenses_fields:
  "processExpenses this es = Inr this' \<Longrightarrow>
     userNames this' = userNames this \<and> expenses this' = expenses this"
proof (induction es arbitrary: this)
  case Nil
  then show ?case by simp
next
  case (Cons e es)
  from Cons.prems obtain this1 where p1: "processExpense this e = Inr this1"
    and p2: "processExpenses this1 es = Inr this'"
    by (auto split: sum.splits)
  show ?case
    using Cons.IH [OF p2] processExpense_props(1,2) [OF p1] by simp
qed

lemma processExpenses_keys:
  "processExpenses this es = Inr this' \<Longrightarrow>
     fst ` set (userBalances this') \<subseteq> fst ` set (userBalances this) \<union> (\<Union>e \<in> set es. expenseUserIds e)"
proof (induction es arbitrary: this)
  case Nil
  then show ?case by simp
next
  case (Cons e es)
  from Cons.prems obtain this1 where p1: "processExpense this e = Inr this1"
    and p2: "processExpenses this1 es = Inr this'"
    by (auto split: sum.splits)
  have "fst ` set (userBalances this') \<subseteq> fst ` set (userBalances this1) \<union> (\<Union>e \<in> set es. expenseUserIds e)"
    by (rule Cons.IH [OF p2])
  also have "\<dots> \<subseteq> (fst ` set (userBalances this) \<union> expenseUserIds e) \<union> (\<Union>e \<in> set es. expenseUserIds e)"
    using processExpense_props(3) [OF p1] by blast
  finally show ?case by auto
qed

lemma processExpenses_keyed:
  "processExpenses this es = Inr this' \<Longrightarrow> keyed (userBalances this) \<Longrightarrow> keyed (userBalances this')"
proof (induction es arbitrary: this)
  case Nil
  then show ?case by simp
next
  case (Cons e es)
  from Cons.prems obtain this1 where p1: "processExpense this e = Inr this1"
    and p2: "processExpenses this1 es = Inr this'"
    by (auto split: sum.splits)
  show ?case
    using Cons.IH [OF p2] processExpense_props(4) [OF p1] Cons.prems(2) by simp
qed

lemma keyed_Nil: "keyed []" by (simp add: keyed_def)


lemma ensureAllUsersHaveBalances_alt:
  "ensureAllUsersHaveBalances this = fold ensure_step (userNames this) this"
  unfolding ensureAllUsersHaveBalances_def ensure_step_def ..

lemma ensure_step_fields:
  "userNames (ensure_step n st) = userNames st"
  "debtGraph (ensure_step n st) = debtGraph st"
  "expenses (ensure_step n st) = expenses st"
  by (simp_all add: ensure_step_def split: prod.splits)

lemma fold_ensure_step_fields:
  "userNames (fold ensure_step ns st) = userNames st"
  "debtGraph (fold ensure_step ns st) = debtGraph st"
  "expenses (fold ensure_step ns st) = expenses st"
  by (induction ns arbitrary: st) (simp_all add: ensure_step_fields)

lemma ensure_fields:
  "userNames (ensureAllUsersHaveBalances this) = userNames this"
  "debtGraph (ensureAllUsersHaveBalances this) = debtGraph this"
  "expenses (ensureAllUsersHaveBalances this) = expenses this"
  by (simp_all add: ensureAllUsersHaveBalances_alt fold_ensure_step_fields)

lemma ensure_step_keys:
  "fst ` set (userBalances (ensure_step n st)) = insert (fst n) (fst ` set (userBalances st))"
proof -
  obtain uid nm where n: "n = (uid, nm)" by (cases n)
  show ?thesis
  proof (cases "map_of (userBalances st) uid = None")
    case True
    then show ?thesis by (simp add: ensure_step_def n dom_update)
  next
    case False
    then have "uid \<in> fst ` set (userBalances st)" by (simp add: map_of_eq_None_iff)
    with False show ?thesis by (auto simp: ensure_step_def n)
  qed
qed

lemma ensure_step_keyed: "keyed (userBalances st) \<Longrightarrow> keyed (userBalances (ensure_step n st))"
  by (auto simp: ensure_step_def split: prod.splits intro!: keyed_update)

lemma fold_ensure_step_keys:
  "fst ` set (userBalances (fold ensure_step ns st)) = fst ` set (userBalances st) \<union> fst ` set ns"
  by (induction ns arbitrary: st) (auto simp: ensure_step_keys)

lemma fold_ensure_step_keyed:
  "keyed (userBalances st) \<Longrightarrow> keyed (userBalances (fold ensure_step ns st))"
  by (induction ns arbitrary: st) (simp_all add: ensure_step_keyed)

lemma newBalanceCalculator_decompose:
  assumes "newBalanceCalculator exps = Inr this"
  obtains this1 where
    "processExpenses
       ((initializeUserNames \<lparr>expenses = exps, userBalances = [], debtGraph = [], userNames = []\<rparr>)
          \<lparr>userBalances := [], debtGraph := []\<rparr>) exps = Inr this1"
    "this = ensureAllUsersHaveBalances this1"
  using assms
  by (auto simp: newBalanceCalculator_def calculateBalances_def initializeUserNames_fields
      split: sum.splits)

lemma newBalanceCalculator_keys:
  assumes "newBalanceCalculator exps = Inr this"
  shows "fst ` set (userBalances this) = (\<Union>e \<in> set exps. expenseUserIds e)"
    and "fst ` set (userNames this) = (\<Union>e \<in> set exps. expenseUserIds e)"
    and "keyed (userBalances this)"
proof -
  let ?init = "initializeUserNames \<lparr>expenses = exps, userBalances = [], debtGraph = [], userNames = []\<rparr>"
  from assms obtain this1 where
    p: "processExpenses (?init\<lparr>userBalances := [], debtGraph := []\<rparr>) exps = Inr this1"
    and t: "this = ensureAllUsersHaveBalances this1"
    by (rule newBalanceCalculator_decompose)
  have names: "fst ` set (userNames ?init) = (\<Union>e \<in> set exps. expenseUserIds e)"
    by (simp add: initializeUserNames_keys)
  have n1: "userNames this1 = userNames ?init" using processExpenses_fields [OF p] by simp
  have k1: "fst ` set (userBalances this1) \<subseteq> (\<Union>e \<in> set exps. expenseUserIds e)"
    using processExpenses_keys [OF p] by simp
  have w1: "keyed (userBalances this1)" using processExpenses_keyed [OF p] by (simp add: keyed_Nil)
  show "fst ` set (userBalances this) = (\<Union>e \<in> set exps. expenseUserIds e)"
    using k1 names n1 unfolding t ensureAllUsersHaveBalances_alt fold_ensure_step_keys by auto
  show "fst ` set (userNames this) = (\<Union>e \<in> set exps. expenseUserIds e)"
    using names n1 unfolding t by (simp add: ensure_fields)
  show "keyed (userBalances this)"
    unfolding t ensureAllUsersHaveBalances_alt by (rule fold_ensure_step_keyed [OF w1])
qed


text \<open>
  C10 (roster completeness of the output), as amended: the calculation takes the expense
  list only and has no roster input.  The participants of the returned balance list are
  exactly the payers and the sharing participants of the expenses, each once; a
  participant of the trip who occurs in no expense is not known to the calculation and is
  absent from its output.
\<close>

theorem output_participants_are_expense_participants:
  assumes "newBalanceCalculator exps = Inr this"
  shows "set (map userId (getUserBalances this)) = (\<Union>e \<in> set exps. expenseUserIds e) \<and>
         distinct (map userId (getUserBalances this))"
proof -
  note keys = newBalanceCalculator_keys [OF assms]
  have m: "map userId (map snd (userBalances this)) = map fst (userBalances this)"
    using keys(3) by (auto simp: keyed_def)
  have "set (map userId (getUserBalances this)) = set (map userId (map snd (userBalances this)))"
    by (simp add: getUserBalances_def image_image)
  then have s: "set (map userId (getUserBalances this)) = (\<Union>e \<in> set exps. expenseUserIds e)"
    using keys(1) unfolding m by simp
  have d0: "distinct (map userId (map snd (userBalances this)))"
    unfolding m using keys(3) by (simp add: keyed_def)
  then have "distinct (map snd (userBalances this))" "inj_on userId (set (map snd (userBalances this)))"
    by (simp_all only: distinct_map)
  then have "distinct (map userId (getUserBalances this))"
    unfolding getUserBalances_def by (simp add: distinct_map)
  with s show ?thesis by simp
qed

text \<open>
  An instance of C10 as amended: one expense paid by alice and shared by alice and bob is
  accepted, and the balance list holds alice and bob, each once.
\<close>

theorem output_participants_are_expense_participants_witness:
  "\<exists>this. newBalanceCalculator [mkExpense ''1'' 30 ''alice'' EQUAL [(''alice'', 1), (''bob'', 1)]]
              = Inr this \<and>
          set (map userId (getUserBalances this)) = {''alice'', ''bob''} \<and>
          distinct (map userId (getUserBalances this))"
proof -
  let ?exps = "[mkExpense ''1'' 30 ''alice'' EQUAL [(''alice'', 1), (''bob'', 1)]]"
  have "case newBalanceCalculator ?exps of Inl err \<Rightarrow> False | Inr this \<Rightarrow> True"
    by code_simp
  then obtain this where t: "newBalanceCalculator ?exps = Inr this"
    by (auto split: sum.splits)
  have ids: "(\<Union>e \<in> set ?exps. expenseUserIds e) = {''alice'', ''bob''}"
    by (simp add: expenseUserIds_def mkExpense_def mkShare_def)
  from output_participants_are_expense_participants [OF t] t ids show ?thesis
    by (intro exI [of _ this]) simp
qed

text \<open>
  C10 as stated fails: for a trip whose roster is alice, bob and carol, and whose only
  expense is paid by alice and shared by alice and bob, the returned balance list holds
  alice and bob only.  Carol, who appears in no expense, is not in the output; the
  constructor receives the expenses and nothing else.
\<close>

theorem roster_participant_without_expense_counterexample:
  "map_sum id (\<lambda>r. map userId (r_userBalances r))
     (runCalculation [mkExpense ''1'' 30 ''alice'' EQUAL [(''alice'', 1), (''bob'', 1)]])
     = Inr [''alice'', ''bob''] \<and>
   ''carol'' \<notin> set [''alice'', ''bob'']"
  by code_simp

subsection \<open>The greedy settlement loop\<close>


lemma settle_step_lengths:
  "length (creditors (settle_step names st)) = length (creditors st)"
  "length (debtors (settle_step names st)) = length (debtors st)"
  by (simp_all add: settle_step_def Let_def split: prod.splits)










subsection \<open>The shares of one expense\<close>












subsection \<open>The debt graph and the accumulated balances\<close>

































































subsection \<open>What the settlement plan achieves\<close>






























































end
